theory Spec2Isabelle
  imports Complex_Main "HOL-Library.Word"
begin

section \<open>The QUIC wrapper of \<^verbatim>\<open>internal/wrapper/quic.go\<close>\<close>

text \<open>
  The package adapts a QUIC engine (an external library) to the session and stream
  interface of the surrounding stack. The engine is not part of the package: every
  engine call is a parameter of the wrapper function that makes it, a function on an
  explicit world state \<open>'w\<close>, so that a wrapper function that makes no engine call
  leaves the world as it found it.
\<close>

subsection \<open>Values of the Go runtime and standard library\<close>

type_synonym byte = "8 word"

text \<open>\<^verbatim>\<open>time.Duration\<close> is a 64-bit count of nanoseconds; \<^verbatim>\<open>time.Second\<close> is \<open>10\<^sup>9\<close> of them.\<close>

type_synonym Duration = "64 word"

definition time_Second :: Duration where
  "time_Second = 1000000000"

text \<open>A context is the background context or a context with a timeout on top of another.\<close>

datatype Context = Background | WithTimeout Context Duration

text \<open>A run-time panic of Go. The wrapper has one source of panics, the nil pointer.\<close>

datatype panic = NilPointerDereference

text \<open>\<^verbatim>\<open>strings.HasPrefix(s, prefix)\<close>.\<close>

definition HasPrefix :: "string \<Rightarrow> string \<Rightarrow> bool" where
  "HasPrefix s pre = (length pre \<le> length s \<and> take (length pre) s = pre)"

subsection \<open>Errors\<close>

text \<open>
  The error values of the engine. The engine is not part of the package; what is
  modelled of it is what the test at lines 130 and 145 reads. An application error is
  the error the engine reports on a connection that was closed with an application
  error code: it carries the code, the side that closed (\<open>Remote\<close> for the peer) and the
  reason. Any other error of the engine (a timeout, a transport error, an expired
  context) is given by its message.
\<close>

datatype engine_error =
    ApplicationError (ErrorCode: "64 word") (Remote: bool) (ErrorMessage: string)
  | EngineError string

text \<open>
  The message of an application error, as the engine formats it:
  \<^verbatim>\<open>Application error %#x (%s)\<close>, followed by \<^verbatim>\<open>: \<close> and the reason when there is one.
  The verb \<^verbatim>\<open>%#x\<close> writes \<^verbatim>\<open>0x\<close> and the code in lower-case hexadecimal digits without
  leading zeros, the code 0 as \<^verbatim>\<open>0x0\<close>; the role is \<^verbatim>\<open>remote\<close> or \<^verbatim>\<open>local\<close>.
\<close>

definition hexdigit :: "nat \<Rightarrow> char" where
  "hexdigit d = ''0123456789abcdef'' ! d"

fun hex :: "nat \<Rightarrow> string" where
  "hex n = (if n < 16 then [hexdigit n] else hex (n div 16) @ [hexdigit (n mod 16)])"

declare hex.simps [simp del]

definition getRole :: "bool \<Rightarrow> string" where
  "getRole remote = (if remote then ''remote'' else ''local'')"

fun engine_Error :: "engine_error \<Rightarrow> string" where
  "engine_Error (ApplicationError code remote msg) =
     (if msg = []
      then ''Application error 0x'' @ hex (unat code) @ '' ('' @ getRole remote @ '')''
      else ''Application error 0x'' @ hex (unat code) @ '' ('' @ getRole remote @ ''): '' @ msg)"
| "engine_Error (EngineError m) = m"

text \<open>
  The \<^verbatim>\<open>error\<close> values the wrapper handles: its own package variable (line 36),
  \<^verbatim>\<open>io.EOF\<close>, an error of the engine, and any other error a caller may hand in.
  The package variable is unexported, so no engine call returns it.
\<close>

datatype error =
    errClientWithoutRemoteAddress
  | io_EOF
  | Engine engine_error
  | OtherError string

fun Error :: "error \<Rightarrow> string" where
  "Error errClientWithoutRemoteAddress = ''quic: creating client without remote address''"
| "Error io_EOF = ''EOF''"
| "Error (Engine e) = engine_Error e"
| "Error (OtherError m) = m"

subsection \<open>Configuration\<close>

text \<open>Of an X.509 certificate the wrapper reads the field \<^verbatim>\<open>Raw\<close> only.\<close>

record x509_Certificate =
  Raw :: "byte list"

text \<open>
  \<^verbatim>\<open>Config\<close> (lines 20 to 24). \<^verbatim>\<open>Certificate\<close> is a pointer, \<open>None\<close> when nil;
  \<^verbatim>\<open>crypto.PrivateKey\<close> is an empty interface, here any type \<open>'k\<close>.
\<close>

record 'k Config =
  Certificate :: "x509_Certificate option"
  PrivateKey :: 'k
  SkipVerify :: bool

text \<open>The fields of \<^verbatim>\<open>quic.Config\<close> that the wrapper sets; it leaves all others zero.\<close>

record quic_Config =
  MaxIncomingStreams :: "64 word"
  MaxIncomingUniStreams :: "64 word"
  MaxStreamReceiveWindow :: "64 word"
  MaxConnectionReceiveWindow :: "64 word"
  KeepAlivePeriod :: Duration

text \<open>
  \<^verbatim>\<open>getDefaultQuicConfig\<close> (lines 26 to 34). The constant \<^verbatim>\<open>4.5 * (1 << 20)\<close> is an
  untyped constant of Go, computed exactly and then converted to \<^verbatim>\<open>uint64\<close>.
\<close>

definition getDefaultQuicConfig :: quic_Config where
  "getDefaultQuicConfig =
     \<lparr> MaxIncomingStreams = 1000,
       MaxIncomingUniStreams = 1000,
       MaxStreamReceiveWindow = 3 * push_bit 20 1,
       MaxConnectionReceiveWindow = word_of_int \<lfloor>(4.5 :: rat) * of_int (push_bit 20 1)\<rfloor>,
       KeepAlivePeriod = 15 * time_Second \<rparr>"

text \<open>The \<^verbatim>\<open>crypto/tls\<close> values the wrapper writes.\<close>

datatype ClientAuthType =
    NoClientCert
  | RequestClientCert
  | RequireAnyClientCert
  | VerifyClientCertIfGiven
  | RequireAndVerifyClientCert

definition VersionTLS12 :: "16 word" where
  "VersionTLS12 = 0x0303"

definition VersionTLS13 :: "16 word" where
  "VersionTLS13 = 0x0304"

text \<open>\<^verbatim>\<open>tls.Certificate\<close>: the certificate chain and the private key of its leaf.\<close>

record 'k tls_Certificate =
  tls_Certificate_Certificate :: "byte list list"
  tls_Certificate_PrivateKey :: 'k

record 'k tls_Config =
  MinVersion :: "16 word"
  InsecureSkipVerify :: bool
  ClientAuth :: ClientAuthType
  Certificates :: "'k tls_Certificate list"
  NextProtos :: "string list"

text \<open>
  \<^verbatim>\<open>getTLSConfig\<close> (lines 86 to 98). \<^verbatim>\<open>config\<close> is a pointer and so is
  \<^verbatim>\<open>config.Certificate\<close>: the literal reads \<^verbatim>\<open>config.SkipVerify\<close> and
  \<^verbatim>\<open>config.Certificate.Raw\<close>, and a nil pointer at either place panics.
\<close>

definition getTLSConfig :: "'k Config option \<Rightarrow> panic + 'k tls_Config" where
  "getTLSConfig config =
     (case config of
        None \<Rightarrow> Inl NilPointerDereference
      | Some c \<Rightarrow>
          (case Certificate c of
             None \<Rightarrow> Inl NilPointerDereference
           | Some cert \<Rightarrow>
               Inr \<lparr> MinVersion = VersionTLS13,
                     InsecureSkipVerify = SkipVerify c,
                     ClientAuth = RequireAnyClientCert,
                     Certificates =
                       [\<lparr> tls_Certificate_Certificate = [Raw cert],
                          tls_Certificate_PrivateKey = PrivateKey c \<rparr>],
                     NextProtos = [''pion-quic''] \<rparr>))"

subsection \<open>Connections and the packet conduit\<close>

type_synonym net_Addr = string

text \<open>
  A \<^verbatim>\<open>net.Conn\<close>, of which the wrapper itself asks the remote address only: \<open>None\<close>
  when \<^verbatim>\<open>RemoteAddr()\<close> returns nil.
\<close>

record net_Conn =
  RemoteAddr :: "net_Addr option"

text \<open>The packet conduit that the engine runs on: a connection, wrapped.\<close>

datatype fakePacketConn = FakePacketConn net_Conn

text \<open>
  Modelled from the spec: \<^verbatim>\<open>newFakePacketConn\<close> is defined in another file of the
  package. The specification describes the packet conduit as a wrapper around the
  connection, which it borrows and does not own.
\<close>

definition newFakePacketConn :: "net_Conn \<Rightarrow> fakePacketConn" where
  "newFakePacketConn conn = FakePacketConn conn"

subsection \<open>Sessions, listeners and streams\<close>

text \<open>
  Each wrapper type holds one handle of the engine: \<open>'q\<close> a connection of the engine,
  \<open>'l\<close> a listener, \<open>'h\<close> a stream.
\<close>

datatype 'q Session = Session 'q

datatype 'l Listener = Listener 'l

datatype 'h Stream = Stream 'h

datatype 'h ReadableStream = ReadableStream 'h

text \<open>
  A Go result \<^verbatim>\<open>(*T, error)\<close> is a pair of two options, \<open>None\<close> for nil. An engine
  call returns its handle and its error, with the world after the call; a constructor
  of the wrapper returns a panic or its result pair, with the world after it.
\<close>

type_synonym ('a, 'w) engine_result = "('a \<times> engine_error option) \<times> 'w"

type_synonym ('a, 'w) wrapper_result = "(panic + ('a option \<times> error option)) \<times> 'w"

text \<open>The deadline of every call that waits (lines 45, 57, 125 and 140).\<close>

definition timeout_ctx :: Context where
  "timeout_ctx = WithTimeout Background (10 * time_Second)"

subsection \<open>Constructors\<close>

text \<open>
  \<^verbatim>\<open>Client\<close> (lines 39 to 53). The remote address is checked first; the arguments of
  \<^verbatim>\<open>quic.Dial\<close>, \<^verbatim>\<open>getTLSConfig(config)\<close> among them, are evaluated after the check and
  before the call.
\<close>

definition Client ::
  "(Context \<Rightarrow> fakePacketConn \<Rightarrow> net_Addr \<Rightarrow> 'k tls_Config \<Rightarrow> quic_Config \<Rightarrow> 'w \<Rightarrow> ('q, 'w) engine_result)
   \<Rightarrow> net_Conn \<Rightarrow> 'k Config option \<Rightarrow> 'w \<Rightarrow> ('q Session, 'w) wrapper_result" where
  "Client quic_Dial conn config w =
     (case RemoteAddr conn of
        None \<Rightarrow> (Inr (None, Some errClientWithoutRemoteAddress), w)
      | Some rAddr \<Rightarrow>
          (case getTLSConfig config of
             Inl p \<Rightarrow> (Inl p, w)
           | Inr tlsConf \<Rightarrow>
               (case quic_Dial timeout_ctx (newFakePacketConn conn) rAddr tlsConf
                       getDefaultQuicConfig w of
                  ((s, Some err), w') \<Rightarrow> (Inr (None, Some (Engine err)), w')
                | ((s, None), w') \<Rightarrow> (Inr (Some (Session s), None), w'))))"

text \<open>\<^verbatim>\<open>Dial\<close> (lines 56 to 66).\<close>

definition Dial ::
  "(Context \<Rightarrow> string \<Rightarrow> 'k tls_Config \<Rightarrow> quic_Config \<Rightarrow> 'w \<Rightarrow> ('q, 'w) engine_result)
   \<Rightarrow> string \<Rightarrow> 'k Config option \<Rightarrow> 'w \<Rightarrow> ('q Session, 'w) wrapper_result" where
  "Dial quic_DialAddr addr config w =
     (case getTLSConfig config of
        Inl p \<Rightarrow> (Inl p, w)
      | Inr tlsConf \<Rightarrow>
          (case quic_DialAddr timeout_ctx addr tlsConf getDefaultQuicConfig w of
             ((s, Some err), w') \<Rightarrow> (Inr (None, Some (Engine err)), w')
           | ((s, None), w') \<Rightarrow> (Inr (Some (Session s), None), w')))"

text \<open>\<^verbatim>\<open>Server\<close> (lines 69 to 75).\<close>

definition Server ::
  "(fakePacketConn \<Rightarrow> 'k tls_Config \<Rightarrow> quic_Config \<Rightarrow> 'w \<Rightarrow> ('l, 'w) engine_result)
   \<Rightarrow> net_Conn \<Rightarrow> 'k Config option \<Rightarrow> 'w \<Rightarrow> ('l Listener, 'w) wrapper_result" where
  "Server quic_Listen conn config w =
     (case getTLSConfig config of
        Inl p \<Rightarrow> (Inl p, w)
      | Inr tlsConf \<Rightarrow>
          (case quic_Listen (newFakePacketConn conn) tlsConf getDefaultQuicConfig w of
             ((l, Some err), w') \<Rightarrow> (Inr (None, Some (Engine err)), w')
           | ((l, None), w') \<Rightarrow> (Inr (Some (Listener l), None), w')))"

text \<open>\<^verbatim>\<open>Listen\<close> (lines 78 to 84).\<close>

definition Listen ::
  "(string \<Rightarrow> 'k tls_Config \<Rightarrow> quic_Config \<Rightarrow> 'w \<Rightarrow> ('l, 'w) engine_result)
   \<Rightarrow> string \<Rightarrow> 'k Config option \<Rightarrow> 'w \<Rightarrow> ('l Listener, 'w) wrapper_result" where
  "Listen quic_ListenAddr addr config w =
     (case getTLSConfig config of
        Inl p \<Rightarrow> (Inl p, w)
      | Inr tlsConf \<Rightarrow>
          (case quic_ListenAddr addr tlsConf getDefaultQuicConfig w of
             ((l, Some err), w') \<Rightarrow> (Inr (None, Some (Engine err)), w')
           | ((l, None), w') \<Rightarrow> (Inr (Some (Listener l), None), w')))"

subsection \<open>Operations of a session\<close>

text \<open>\<^verbatim>\<open>AcceptStream\<close> (lines 124 to 136).\<close>

definition AcceptStream ::
  "('q \<Rightarrow> Context \<Rightarrow> 'w \<Rightarrow> ('h, 'w) engine_result)
   \<Rightarrow> 'q Session \<Rightarrow> 'w \<Rightarrow> ('h Stream option \<times> error option) \<times> 'w" where
  "AcceptStream conn_AcceptStream sess w =
     (case sess of Session q \<Rightarrow>
        (case conn_AcceptStream q timeout_ctx w of
           ((str, Some err), w') \<Rightarrow>
             (if HasPrefix (Error (Engine err)) ''Application error 0x0''
              then ((None, None), w')
              else ((None, Some (Engine err)), w'))
         | ((str, None), w') \<Rightarrow> ((Some (Stream str), None), w')))"

text \<open>\<^verbatim>\<open>AcceptUniStream\<close> (lines 139 to 151).\<close>

definition AcceptUniStream ::
  "('q \<Rightarrow> Context \<Rightarrow> 'w \<Rightarrow> ('h, 'w) engine_result)
   \<Rightarrow> 'q Session \<Rightarrow> 'w \<Rightarrow> ('h ReadableStream option \<times> error option) \<times> 'w" where
  "AcceptUniStream conn_AcceptUniStream sess w =
     (case sess of Session q \<Rightarrow>
        (case conn_AcceptUniStream q timeout_ctx w of
           ((str, Some err), w') \<Rightarrow>
             (if HasPrefix (Error (Engine err)) ''Application error 0x0''
              then ((None, None), w')
              else ((None, Some (Engine err)), w'))
         | ((str, None), w') \<Rightarrow> ((Some (ReadableStream str), None), w')))"

text \<open>
  \<^verbatim>\<open>CloseWithError\<close> (lines 165 to 171). The code is a \<^verbatim>\<open>uint16\<close>, converted to the
  64-bit \<^verbatim>\<open>quic.ApplicationErrorCode\<close>; the engine's call returns an error or nil.
\<close>

definition CloseWithError ::
  "('q \<Rightarrow> 64 word \<Rightarrow> string \<Rightarrow> 'w \<Rightarrow> engine_error option \<times> 'w)
   \<Rightarrow> 'q Session \<Rightarrow> 16 word \<Rightarrow> error option \<Rightarrow> 'w \<Rightarrow> error option \<times> 'w" where
  "CloseWithError conn_CloseWithError sess code err w =
     (case sess of Session q \<Rightarrow>
        (let e = (case err of None \<Rightarrow> ''nil'' | Some x \<Rightarrow> Error x)
         in case conn_CloseWithError q (ucast code) e w of
              (r, w') \<Rightarrow> (map_option Engine r, w')))"

text \<open>\<^verbatim>\<open>Close\<close> (lines 159 to 161).\<close>

definition Close ::
  "('q \<Rightarrow> 64 word \<Rightarrow> string \<Rightarrow> 'w \<Rightarrow> engine_error option \<times> 'w)
   \<Rightarrow> 'q Session \<Rightarrow> 'w \<Rightarrow> error option \<times> 'w" where
  "Close conn_CloseWithError sess w = CloseWithError conn_CloseWithError sess 0 (Some io_EOF) w"

subsection \<open>Engines for concrete runs\<close>

text \<open>
  Stand-ins for the engine, used where a theorem is run on a concrete input. Each makes
  its call visible in the world: the dial, listen and accept calls count themselves, the
  close call records the code and the reason of the closure it is asked to send.
\<close>

definition counting_Dial ::
  "Context \<Rightarrow> fakePacketConn \<Rightarrow> net_Addr \<Rightarrow> nat tls_Config \<Rightarrow> quic_Config \<Rightarrow> nat
   \<Rightarrow> (nat, nat) engine_result" where
  "counting_Dial ctx pconn addr tlsConf conf w = ((0, None), Suc w)"

definition counting_DialAddr ::
  "Context \<Rightarrow> string \<Rightarrow> nat tls_Config \<Rightarrow> quic_Config \<Rightarrow> nat \<Rightarrow> (nat, nat) engine_result" where
  "counting_DialAddr ctx addr tlsConf conf w = ((0, None), Suc w)"

definition counting_Listen ::
  "fakePacketConn \<Rightarrow> nat tls_Config \<Rightarrow> quic_Config \<Rightarrow> nat \<Rightarrow> (nat, nat) engine_result" where
  "counting_Listen pconn tlsConf conf w = ((0, None), Suc w)"

definition counting_ListenAddr ::
  "string \<Rightarrow> nat tls_Config \<Rightarrow> quic_Config \<Rightarrow> nat \<Rightarrow> (nat, nat) engine_result" where
  "counting_ListenAddr addr tlsConf conf w = ((0, None), Suc w)"

definition failing_Accept ::
  "engine_error \<Rightarrow> nat \<Rightarrow> Context \<Rightarrow> nat \<Rightarrow> (nat, nat) engine_result" where
  "failing_Accept e q ctx w = ((0, Some e), Suc w)"

definition recording_CloseWithError ::
  "nat \<Rightarrow> 64 word \<Rightarrow> string \<Rightarrow> (64 word \<times> string) list
   \<Rightarrow> engine_error option \<times> (64 word \<times> string) list" where
  "recording_CloseWithError q code reason w = (None, w @ [(code, reason)])"

subsection \<open>The default engine parameters\<close>

lemma MaxConnectionReceiveWindow_value:
  "MaxConnectionReceiveWindow getDefaultQuicConfig = 4718592"
  by (simp add: getDefaultQuicConfig_def)

text \<open>
  C6. The default engine parameter set bounds the incoming bidirectional and the
  incoming unidirectional streams at 1000 each; its per-stream receive window is 3 MB
  and its connection receive window 4.5 MB, the second strictly larger than the first;
  its keep-alive period is 15 seconds, and so not zero.
\<close>

theorem getDefaultQuicConfig_parameters:
  "MaxIncomingStreams getDefaultQuicConfig = 1000 \<and>
   MaxIncomingUniStreams getDefaultQuicConfig = 1000 \<and>
   unat (MaxStreamReceiveWindow getDefaultQuicConfig) = 3 * 2 ^ 20 \<and>
   2 * unat (MaxConnectionReceiveWindow getDefaultQuicConfig) = 9 * 2 ^ 20 \<and>
   MaxStreamReceiveWindow getDefaultQuicConfig < MaxConnectionReceiveWindow getDefaultQuicConfig \<and>
   unat (KeepAlivePeriod getDefaultQuicConfig) = 15 * unat time_Second \<and>
   unat time_Second = 10 ^ 9 \<and>
   KeepAlivePeriod getDefaultQuicConfig \<noteq> 0"
  by (simp add: getDefaultQuicConfig_def time_Second_def)


subsection \<open>The TLS parameters\<close>

text \<open>
  C2. For every certificate, private key and skip-verification flag, the TLS parameter
  set derived from the configuration requires at least TLS 1.3 and mutual
  authentication: the server side demands a client certificate and the one certificate
  presented is the pair of the configuration's certificate and key. This holds for
  either value of the flag, which only sets \<^verbatim>\<open>InsecureSkipVerify\<close>.
\<close>

theorem getTLSConfig_tls13_mutual_authentication:
  "case getTLSConfig (Some \<lparr> Certificate = Some cert, PrivateKey = key, SkipVerify = skip \<rparr>) of
     Inl p \<Rightarrow> False
   | Inr t \<Rightarrow>
       VersionTLS13 \<le> MinVersion t \<and> VersionTLS12 < MinVersion t \<and>
       ClientAuth t = RequireAnyClientCert \<and>
       Certificates t =
         [\<lparr> tls_Certificate_Certificate = [Raw cert], tls_Certificate_PrivateKey = key \<rparr>] \<and>
       InsecureSkipVerify t = skip"
  by (simp add: getTLSConfig_def VersionTLS13_def VersionTLS12_def)

lemma getTLSConfig_returns:
  "\<exists>t. getTLSConfig (Some \<lparr> Certificate = Some cert, PrivateKey = key, SkipVerify = skip \<rparr>) = Inr t"
  by (simp add: getTLSConfig_def)

text \<open>
  C7. For every input configuration, the TLS parameter set derived from it lists
  exactly the fixed application-protocol identifier \<^verbatim>\<open>pion-quic\<close> for negotiation: from
  every configuration with a certificate, whatever the certificate, the key and the
  flag, the builder derives a set and the set lists this identifier and no other; and
  no configuration at all yields a set with another list.
\<close>

theorem getTLSConfig_NextProtos:
  "(case getTLSConfig (Some \<lparr> Certificate = Some cert, PrivateKey = key, SkipVerify = skip \<rparr>) of
      Inl p \<Rightarrow> False
    | Inr t \<Rightarrow> NextProtos t = [''pion-quic'']) \<and>
   (getTLSConfig config = Inr derived \<longrightarrow> NextProtos derived = [''pion-quic''])"
  by (auto simp: getTLSConfig_def split: option.splits)

theorem getTLSConfig_NextProtos_witness:
  "getTLSConfig (Some \<lparr> Certificate = Some \<lparr> Raw = [48, 130] \<rparr>, PrivateKey = (5::nat),
                         SkipVerify = True \<rparr>)
     = Inr \<lparr> MinVersion = 0x0304, InsecureSkipVerify = True, ClientAuth = RequireAnyClientCert,
             Certificates = [\<lparr> tls_Certificate_Certificate = [[48, 130]],
                               tls_Certificate_PrivateKey = 5 \<rparr>],
             NextProtos = [''pion-quic''] \<rparr> \<and>
   NextProtos \<lparr> MinVersion = 0x0304, InsecureSkipVerify = True, ClientAuth = RequireAnyClientCert,
                Certificates = [\<lparr> tls_Certificate_Certificate = [[48, 130]],
                                  tls_Certificate_PrivateKey = (5::nat) \<rparr>],
                NextProtos = [''pion-quic''] \<rparr> = [''pion-quic'']"
proof -
  let ?config = "Some \<lparr> Certificate = Some \<lparr> Raw = [48, 130] \<rparr>, PrivateKey = (5::nat),
                        SkipVerify = True \<rparr>"
  let ?set = "\<lparr> MinVersion = 0x0304, InsecureSkipVerify = True,
               ClientAuth = RequireAnyClientCert,
               Certificates = [\<lparr> tls_Certificate_Certificate = [[48, 130]],
                                 tls_Certificate_PrivateKey = (5::nat) \<rparr>],
               NextProtos = [''pion-quic''] \<rparr>"
  have h: "getTLSConfig ?config = Inr ?set"
    by (simp add: getTLSConfig_def VersionTLS13_def)
  have "NextProtos ?set = [''pion-quic'']"
    by (rule getTLSConfig_NextProtos
               [where config = ?config and derived = ?set, THEN conjunct2, THEN mp, OF h])
  with h show ?thesis
    by (rule conjI)
qed

subsection \<open>Connecting as a client over a connection\<close>

text \<open>
  C3. On a connection whose remote address is absent, \<^verbatim>\<open>Client\<close> fails with the error
  \<^verbatim>\<open>quic: creating client without remote address\<close> and returns before any dial or
  handshake: whatever the engine's dial would do, it is not called, the world is the
  one the call started in, and the configuration is not read. On a connection that
  reports a remote address, \<^verbatim>\<open>Client\<close> never returns this error.
\<close>

theorem Client_without_remote_address:
  "(RemoteAddr conn = None \<longrightarrow>
      Client quic_Dial conn config w = (Inr (None, Some errClientWithoutRemoteAddress), w) \<and>
      Error errClientWithoutRemoteAddress = ''quic: creating client without remote address'') \<and>
   (RemoteAddr conn \<noteq> None \<longrightarrow>
      fst (Client quic_Dial conn config w) \<noteq> Inr (sess, Some errClientWithoutRemoteAddress))"
  by (auto simp: Client_def split: option.splits sum.splits prod.splits)

theorem Client_without_remote_address_witness:
  "RemoteAddr \<lparr> RemoteAddr = None \<rparr> = None \<and>
   Client counting_Dial \<lparr> RemoteAddr = None \<rparr>
       (Some \<lparr> Certificate = Some \<lparr> Raw = [48] \<rparr>, PrivateKey = 1, SkipVerify = False \<rparr>) 0
     = (Inr (None, Some errClientWithoutRemoteAddress), 0) \<and>
   RemoteAddr \<lparr> RemoteAddr = Some ''10.0.0.1:4242'' \<rparr> \<noteq> None \<and>
   Client counting_Dial \<lparr> RemoteAddr = Some ''10.0.0.1:4242'' \<rparr>
       (Some \<lparr> Certificate = Some \<lparr> Raw = [48] \<rparr>, PrivateKey = 1, SkipVerify = False \<rparr>) 0
     = (Inr (Some (Session 0), None), 1)"
proof -
  let ?config = "Some \<lparr> Certificate = Some \<lparr> Raw = [48] \<rparr>, PrivateKey = 1::nat, SkipVerify = False \<rparr>"
  have absent: "RemoteAddr \<lparr> RemoteAddr = None \<rparr> = None"
    by simp
  have present: "RemoteAddr \<lparr> RemoteAddr = Some ''10.0.0.1:4242'' \<rparr> \<noteq> None"
    by simp
  have refused: "Client counting_Dial \<lparr> RemoteAddr = None \<rparr> ?config 0
                   = (Inr (None, Some errClientWithoutRemoteAddress), 0)"
    using Client_without_remote_address
            [where conn = "\<lparr> RemoteAddr = None \<rparr>" and quic_Dial = counting_Dial
               and config = ?config and w = 0]
          absent
    by blast
  have dialled: "Client counting_Dial \<lparr> RemoteAddr = Some ''10.0.0.1:4242'' \<rparr> ?config 0
                   = (Inr (Some (Session 0), None), 1)"
    by (simp add: Client_def getTLSConfig_def counting_Dial_def)
  have "fst (Client counting_Dial \<lparr> RemoteAddr = Some ''10.0.0.1:4242'' \<rparr> ?config 0)
          \<noteq> Inr (Some (Session 0), Some errClientWithoutRemoteAddress)"
    using Client_without_remote_address
            [where conn = "\<lparr> RemoteAddr = Some ''10.0.0.1:4242'' \<rparr>" and quic_Dial = counting_Dial
               and config = ?config and w = 0 and sess = "Some (Session 0)"]
          present
    by blast
  with absent present refused dialled show ?thesis
    by blast
qed

subsection \<open>Accepting streams\<close>

lemma hex_not_Nil: "hex n \<noteq> []"
  by (subst hex.simps) simp

lemma hex_0: "hex 0 = ''0''"
  by (subst hex.simps) (simp add: hexdigit_def)

lemma hexdigit_not_zero:
  assumes "0 < d" and "d < 16"
  shows "hexdigit d \<noteq> CHR ''0''"
proof -
  from assms
  have "d = 1 \<or> d = 2 \<or> d = 3 \<or> d = 4 \<or> d = 5 \<or> d = 6 \<or> d = 7 \<or> d = 8 \<or> d = 9 \<or>
        d = 10 \<or> d = 11 \<or> d = 12 \<or> d = 13 \<or> d = 14 \<or> d = 15"
    by arith
  then show ?thesis
    by (auto simp: hexdigit_def)
qed

text \<open>A code that is not 0 is written without a leading zero.\<close>

lemma hex_leading_digit: "0 < n \<Longrightarrow> hd (hex n) \<noteq> CHR ''0''"
proof (induction n rule: hex.induct)
  case (1 n)
  show ?case
  proof (cases "n < 16")
    case True
    with "1.prems" show ?thesis
      by (subst hex.simps) (simp add: hexdigit_not_zero)
  next
    case False
    then have "0 < n div 16"
      by (simp add: div_greater_zero_iff)
    with False "1.IH" have "hd (hex (n div 16)) \<noteq> CHR ''0''"
      by simp
    with False show ?thesis
      by (subst hex.simps) (simp add: hex_not_Nil)
  qed
qed

lemma HasPrefix_code:
  "HasPrefix (''Application error 0x'' @ s) ''Application error 0x0''
     \<longleftrightarrow> s \<noteq> [] \<and> hd s = CHR ''0''"
  by (cases s) (auto simp: HasPrefix_def)

text \<open>
  On the application errors of the engine, the test of lines 130 and 145 is the test
  for the code 0. It does not look at the side that closed.
\<close>

lemma ApplicationError_prefix:
  "HasPrefix (engine_Error (ApplicationError code remote msg)) ''Application error 0x0''
     \<longleftrightarrow> code = 0"
proof (cases "code = 0")
  case True
  then show ?thesis
    by (simp add: HasPrefix_code hex_0 del: append.simps)
next
  case False
  then have "0 < unat code"
    by (simp add: unat_gt_0)
  then have "hd (hex (unat code)) \<noteq> CHR ''0''"
    by (rule hex_leading_digit)
  with False show ?thesis
    by (simp add: HasPrefix_code hex_not_Nil del: append.simps)
qed

text \<open>
  A session that the local side has closed with code 0 (\<^verbatim>\<open>Close\<close>): the engine's accept
  call reports the application error with code 0 of the local side, whose message is
  \<^verbatim>\<open>Application error 0x0 (local): EOF\<close>. The peer did not close the connection, and yet
  \<^verbatim>\<open>AcceptStream\<close> and \<^verbatim>\<open>AcceptUniStream\<close> return no error: the error is not propagated.
\<close>

theorem AcceptStream_local_close_counterexample:
  "\<not> Remote (ApplicationError 0 False ''EOF'') \<and>
   engine_Error (ApplicationError 0 False ''EOF'') = ''Application error 0x0 (local): EOF'' \<and>
   AcceptStream (failing_Accept (ApplicationError 0 False ''EOF'')) (Session 7) 0
     = ((None, None), 1) \<and>
   AcceptStream (failing_Accept (ApplicationError 0 False ''EOF'')) (Session 7) 0
     \<noteq> ((None, Some (Engine (ApplicationError 0 False ''EOF''))), 1) \<and>
   AcceptUniStream (failing_Accept (ApplicationError 0 False ''EOF'')) (Session 7) 0
     = ((None, None), 1) \<and>
   AcceptUniStream (failing_Accept (ApplicationError 0 False ''EOF'')) (Session 7) 0
     \<noteq> ((None, Some (Engine (ApplicationError 0 False ''EOF''))), 1)"
proof -
  have msg: "engine_Error (ApplicationError 0 False ''EOF'') = ''Application error 0x0 (local): EOF''"
    by (simp add: hex_0 getRole_def)
  have test: "HasPrefix (Error (Engine (ApplicationError 0 False ''EOF'')))
                ''Application error 0x0''"
    unfolding Error.simps msg by (simp add: HasPrefix_def)
  have bidi: "AcceptStream (failing_Accept (ApplicationError 0 False ''EOF'')) (Session 7) 0
                = ((None, None), 1)"
    by (simp add: AcceptStream_def failing_Accept_def test del: Error.simps)
  have uni: "AcceptUniStream (failing_Accept (ApplicationError 0 False ''EOF'')) (Session 7) 0
               = ((None, None), 1)"
    by (simp add: AcceptUniStream_def failing_Accept_def test del: Error.simps)
  show ?thesis
    unfolding bidi uni msg by simp
qed

text \<open>
  C1, amended. For every session whose connection was closed with application error
  code 0, by the peer or by the local side, \<^verbatim>\<open>AcceptStream\<close> and \<^verbatim>\<open>AcceptUniStream\<close>
  return no stream and no error instead of propagating the closure as an error. Every
  application error with another code, and every other error of the engine's accept
  call whose message does not begin with \<^verbatim>\<open>Application error 0x0\<close>, is propagated to
  the caller unchanged, with no stream.
\<close>

theorem AcceptStream_closed_without_error:
  assumes "conn_AcceptStream q timeout_ctx w = ((str, Some e), wa)"
      and "conn_AcceptUniStream q timeout_ctx w = ((ustr, Some e), wb)"
  shows "(e = ApplicationError 0 remote reason \<longrightarrow>
            AcceptStream conn_AcceptStream (Session q) w = ((None, None), wa) \<and>
            AcceptUniStream conn_AcceptUniStream (Session q) w = ((None, None), wb)) \<and>
         (e = ApplicationError code remote reason \<and> code \<noteq> 0 \<longrightarrow>
            AcceptStream conn_AcceptStream (Session q) w = ((None, Some (Engine e)), wa) \<and>
            AcceptUniStream conn_AcceptUniStream (Session q) w = ((None, Some (Engine e)), wb)) \<and>
         (e = EngineError msg \<and> \<not> HasPrefix msg ''Application error 0x0'' \<longrightarrow>
            AcceptStream conn_AcceptStream (Session q) w = ((None, Some (Engine e)), wa) \<and>
            AcceptUniStream conn_AcceptUniStream (Session q) w = ((None, Some (Engine e)), wb))"
proof -
  have swallowed:
    "AcceptStream conn_AcceptStream (Session q) w = ((None, None), wa) \<and>
     AcceptUniStream conn_AcceptUniStream (Session q) w = ((None, None), wb)"
    if "HasPrefix (engine_Error e) ''Application error 0x0''"
    using assms that by (simp add: AcceptStream_def AcceptUniStream_def)
  have propagated:
    "AcceptStream conn_AcceptStream (Session q) w = ((None, Some (Engine e)), wa) \<and>
     AcceptUniStream conn_AcceptUniStream (Session q) w = ((None, Some (Engine e)), wb)"
    if "\<not> HasPrefix (engine_Error e) ''Application error 0x0''"
    using assms that by (simp add: AcceptStream_def AcceptUniStream_def)
  show ?thesis
  proof (intro conjI impI)
    assume "e = ApplicationError 0 remote reason"
    then have "HasPrefix (engine_Error e) ''Application error 0x0''"
      by (simp only: ApplicationError_prefix)
    then show "AcceptStream conn_AcceptStream (Session q) w = ((None, None), wa)"
      and "AcceptUniStream conn_AcceptUniStream (Session q) w = ((None, None), wb)"
      using swallowed by simp_all
  next
    assume "e = ApplicationError code remote reason \<and> code \<noteq> 0"
    then have "\<not> HasPrefix (engine_Error e) ''Application error 0x0''"
      by (simp only: ApplicationError_prefix) simp
    then show "AcceptStream conn_AcceptStream (Session q) w = ((None, Some (Engine e)), wa)"
      and "AcceptUniStream conn_AcceptUniStream (Session q) w = ((None, Some (Engine e)), wb)"
      using propagated by simp_all
  next
    assume "e = EngineError msg \<and> \<not> HasPrefix msg ''Application error 0x0''"
    then have "\<not> HasPrefix (engine_Error e) ''Application error 0x0''"
      by simp
    then show "AcceptStream conn_AcceptStream (Session q) w = ((None, Some (Engine e)), wa)"
      and "AcceptUniStream conn_AcceptUniStream (Session q) w = ((None, Some (Engine e)), wb)"
      using propagated by simp_all
  qed
qed

theorem AcceptStream_closed_without_error_witness:
  "AcceptStream (failing_Accept (ApplicationError 0 True ''EOF'')) (Session 7) 0
     = ((None, None), 1) \<and>
   AcceptUniStream (failing_Accept (ApplicationError 0 True ''EOF'')) (Session 7) 0
     = ((None, None), 1) \<and>
   AcceptStream (failing_Accept (ApplicationError 1 True ''failed'')) (Session 7) 0
     = ((None, Some (Engine (ApplicationError 1 True ''failed''))), 1) \<and>
   AcceptUniStream (failing_Accept (EngineError ''context deadline exceeded'')) (Session 7) 0
     = ((None, Some (Engine (EngineError ''context deadline exceeded''))), 1)"
proof -
  have call: "failing_Accept e 7 timeout_ctx 0 = ((0, Some e), 1)" for e
    by (simp add: failing_Accept_def)
  have expired: "\<not> HasPrefix ''context deadline exceeded'' ''Application error 0x0''"
    by (simp add: HasPrefix_def)
  have nonzero: "(1 :: 64 word) \<noteq> 0"
    by simp
  from AcceptStream_closed_without_error
         [where conn_AcceptStream = "failing_Accept (ApplicationError 0 True ''EOF'')"
            and conn_AcceptUniStream = "failing_Accept (ApplicationError 0 True ''EOF'')"
            and q = 7 and w = 0 and str = 0 and ustr = 0 and wa = 1 and wb = 1
            and e = "ApplicationError 0 True ''EOF''" and remote = True and reason = "''EOF''",
          OF call call]
  have closed: "AcceptStream (failing_Accept (ApplicationError 0 True ''EOF'')) (Session 7) 0
                  = ((None, None), 1) \<and>
                AcceptUniStream (failing_Accept (ApplicationError 0 True ''EOF'')) (Session 7) 0
                  = ((None, None), 1)"
    by blast
  from AcceptStream_closed_without_error
         [where conn_AcceptStream = "failing_Accept (ApplicationError 1 True ''failed'')"
            and conn_AcceptUniStream = "failing_Accept (ApplicationError 1 True ''failed'')"
            and q = 7 and w = 0 and str = 0 and ustr = 0 and wa = 1 and wb = 1
            and e = "ApplicationError 1 True ''failed''" and code = 1 and remote = True
            and reason = "''failed''",
          OF call call]
       nonzero
  have failed: "AcceptStream (failing_Accept (ApplicationError 1 True ''failed'')) (Session 7) 0
                  = ((None, Some (Engine (ApplicationError 1 True ''failed''))), 1)"
    by blast
  from AcceptStream_closed_without_error
         [where conn_AcceptStream = "failing_Accept (EngineError ''context deadline exceeded'')"
            and conn_AcceptUniStream = "failing_Accept (EngineError ''context deadline exceeded'')"
            and q = 7 and w = 0 and str = 0 and ustr = 0 and wa = 1 and wb = 1
            and e = "EngineError ''context deadline exceeded''"
            and msg = "''context deadline exceeded''",
          OF call call]
       expired
  have timed_out:
    "AcceptUniStream (failing_Accept (EngineError ''context deadline exceeded'')) (Session 7) 0
       = ((None, Some (Engine (EngineError ''context deadline exceeded''))), 1)"
    by blast
  from closed failed timed_out show ?thesis
    by blast
qed

subsection \<open>Closing a session\<close>

lemma code_widened: "unat (ucast (code :: 16 word) :: 64 word) = unat code"
proof -
  have "unat code < 2 ^ 16"
    using unsigned_less [of code] by simp
  then have "unat code < 2 ^ 64"
    by (rule less_trans) simp
  then show ?thesis
    by (simp add: unsigned_ucast_eq take_bit_nat_eq_self)
qed

text \<open>
  C4. For every close code and every error value, absent or not, \<^verbatim>\<open>CloseWithError\<close>
  forms the closure signal and hands it to the engine: with a nil error the reason is
  the literal \<^verbatim>\<open>nil\<close>, with any other error the reason is that error's message, and the
  code is the caller's code, widened. The result of the call is the result of the
  engine's call in both cases, so a nil error makes no call fail.
\<close>

theorem CloseWithError_reason:
  "CloseWithError conn_CloseWithError (Session q) code None w
     = apfst (map_option Engine) (conn_CloseWithError q (ucast code) ''nil'' w) \<and>
   CloseWithError conn_CloseWithError (Session q) code (Some err) w
     = apfst (map_option Engine) (conn_CloseWithError q (ucast code) (Error err) w) \<and>
   unat (ucast code :: 64 word) = unat code"
  by (simp add: CloseWithError_def apfst_def map_prod_def code_widened split: prod.splits)

theorem CloseWithError_reason_witness:
  "CloseWithError recording_CloseWithError (Session 3) 7 None [] = (None, [(7, ''nil'')]) \<and>
   CloseWithError recording_CloseWithError (Session 3) 7 (Some (OtherError ''going away'')) []
     = (None, [(7, ''going away'')])"
  using CloseWithError_reason
          [where conn_CloseWithError = recording_CloseWithError and q = 3 and code = 7
             and w = "[]" and err = "OtherError ''going away''"]
  by (simp add: recording_CloseWithError_def)

text \<open>
  C5. For every session, \<^verbatim>\<open>Close\<close> is \<^verbatim>\<open>CloseWithError\<close> with code 0 and the
  end-of-stream error \<^verbatim>\<open>io.EOF\<close>: it asks the engine to close with application error
  code 0 and the reason \<^verbatim>\<open>EOF\<close>, and returns what that call returns.
\<close>

theorem Close_is_CloseWithError_EOF:
  "Close conn_CloseWithError sess w = CloseWithError conn_CloseWithError sess 0 (Some io_EOF) w \<and>
   Close conn_CloseWithError (Session q) w
     = apfst (map_option Engine) (conn_CloseWithError q 0 ''EOF'' w)"
  by (simp add: Close_def CloseWithError_def apfst_def map_prod_def split: prod.splits)

subsection \<open>Constructors on a configuration without certificate\<close>

text \<open>
  \<^verbatim>\<open>Client\<close> on a connection without remote address and a nil configuration: the call
  returns the error for the missing address and does not panic, since it returns at
  line 42, before \<^verbatim>\<open>getTLSConfig\<close> is called at line 48.
\<close>

theorem Client_nil_config_counterexample:
  "Client counting_Dial \<lparr> RemoteAddr = None \<rparr> None 0
     = (Inr (None, Some errClientWithoutRemoteAddress), 0) \<and>
   fst (Client counting_Dial \<lparr> RemoteAddr = None \<rparr> None 0) \<noteq> Inl NilPointerDereference"
  by (simp add: Client_def)

text \<open>
  C10, amended. The constructors do not validate the configuration. When the
  configuration is nil or its certificate is nil, the TLS parameter builder
  dereferences the nil pointer, and every call to \<^verbatim>\<open>Dial\<close>, \<^verbatim>\<open>Server\<close> or \<^verbatim>\<open>Listen\<close>, and
  every call to \<^verbatim>\<open>Client\<close> on a connection that reports a remote address, panics
  instead of returning a configuration error; the engine is not called.
\<close>

theorem constructors_panic_without_certificate:
  assumes "config = None \<or> (\<exists>c. config = Some c \<and> Certificate c = None)"
  shows "getTLSConfig config = Inl NilPointerDereference \<and>
         Dial quic_DialAddr addr config w = (Inl NilPointerDereference, w) \<and>
         Server quic_Listen conn config w = (Inl NilPointerDereference, w) \<and>
         Listen quic_ListenAddr addr config w = (Inl NilPointerDereference, w) \<and>
         (RemoteAddr conn \<noteq> None \<longrightarrow>
            Client quic_Dial conn config w = (Inl NilPointerDereference, w))"
proof -
  from assms have nil: "getTLSConfig config = Inl NilPointerDereference"
    by (auto simp: getTLSConfig_def)
  then show ?thesis
    by (auto simp: Dial_def Server_def Listen_def Client_def)
qed

theorem constructors_panic_without_certificate_witness:
  "Dial counting_DialAddr ''10.0.0.1:4242'' None 0 = (Inl NilPointerDereference, 0) \<and>
   Server counting_Listen \<lparr> RemoteAddr = Some ''10.0.0.1:4242'' \<rparr> None 0
     = (Inl NilPointerDereference, 0) \<and>
   Listen counting_ListenAddr ''10.0.0.1:4242'' None 0 = (Inl NilPointerDereference, 0) \<and>
   Client counting_Dial \<lparr> RemoteAddr = Some ''10.0.0.1:4242'' \<rparr> None 0
     = (Inl NilPointerDereference, 0) \<and>
   Client counting_Dial \<lparr> RemoteAddr = Some ''10.0.0.1:4242'' \<rparr>
       (Some \<lparr> Certificate = None, PrivateKey = 1, SkipVerify = False \<rparr>) 0
     = (Inl NilPointerDereference, 0)"
proof -
  let ?conn = "\<lparr> RemoteAddr = Some ''10.0.0.1:4242'' \<rparr>"
  let ?config = "Some \<lparr> Certificate = None, PrivateKey = 1::nat, SkipVerify = False \<rparr>"
  have nil: "(None :: nat Config option) = None \<or>
             (\<exists>c. (None :: nat Config option) = Some c \<and> Certificate c = None)"
    by simp
  have no_cert: "?config = None \<or> (\<exists>c. ?config = Some c \<and> Certificate c = None)"
    by simp
  have addr: "RemoteAddr ?conn \<noteq> None"
    by simp
  from constructors_panic_without_certificate
         [OF nil, where quic_DialAddr = counting_DialAddr and quic_Listen = counting_Listen
            and quic_ListenAddr = counting_ListenAddr and quic_Dial = counting_Dial
            and addr = "''10.0.0.1:4242''" and conn = ?conn and w = 0]
       constructors_panic_without_certificate
         [OF no_cert, where quic_DialAddr = counting_DialAddr and quic_Listen = counting_Listen
            and quic_ListenAddr = counting_ListenAddr and quic_Dial = counting_Dial
            and addr = "''10.0.0.1:4242''" and conn = ?conn and w = 0]
       addr
  show ?thesis
    by blast
qed

subsection \<open>The deadline of the waiting calls\<close>

text \<open>
  \<^verbatim>\<open>Client\<close>, \<^verbatim>\<open>Dial\<close>, \<^verbatim>\<open>AcceptStream\<close> and \<^verbatim>\<open>AcceptUniStream\<close> hand the engine one and the
  same context, the background context with a timeout of ten seconds. How long the
  engine then waits is the engine's matter.
\<close>

lemma waiting_calls_use_timeout_ctx:
  "Client quic_Dial conn config w = Client (\<lambda>ctx. quic_Dial timeout_ctx) conn config w"
  "Dial quic_DialAddr addr config w = Dial (\<lambda>ctx. quic_DialAddr timeout_ctx) addr config w"
  "AcceptStream conn_AcceptStream sess w
     = AcceptStream (\<lambda>q ctx. conn_AcceptStream q timeout_ctx) sess w"
  "AcceptUniStream conn_AcceptUniStream sess w
     = AcceptUniStream (\<lambda>q ctx. conn_AcceptUniStream q timeout_ctx) sess w"
  by (simp_all add: Client_def Dial_def AcceptStream_def AcceptUniStream_def)

lemma timeout_ctx_ten_seconds:
  "timeout_ctx = WithTimeout Background d \<Longrightarrow> unat d = 10 * 10 ^ 9"
  by (simp add: timeout_ctx_def time_Second_def)

end
